theory Spec2Isabelle
  imports Main
begin

section \<open>Exceptions, observable events and the world outside the program\<close>

text \<open>
  The program is \<^verbatim>\<open>amul_stock_monitor.py\<close>: one class, \<^verbatim>\<open>StockMonitor\<close>, whose
  methods talk to the network (requests, smtplib), to a browser (selenium) and to the log.
  Every such call is made explicit here:
  \<^item> an exception is a value of type \<open>exn\<close>; the constructors are the exception classes the
    source names in its \<^verbatim>\<open>except\<close> clauses, the subclasses of
    \<^verbatim>\<open>requests.RequestException\<close> the fetch can raise, \<^verbatim>\<open>KeyError\<close> for a missing
    dictionary key, and one constructor for every other subclass of \<^verbatim>\<open>Exception\<close>.
    \<^verbatim>\<open>KeyboardInterrupt\<close> is not a subclass of \<^verbatim>\<open>Exception\<close>; it appears only in the
    continuous loop, as the signal that ends it;
  \<^item> what a call does to the outside is an \<open>event\<close>, appended to the trace of the method;
  \<^item> what the outside answers (the call returns, or raises) is read from an environment
    record, one field per call site, so that a theorem quantified over the environment
    holds for every behaviour of the network, the browser and the mail server.
\<close>

datatype exn =
    HTTPError string
  | ConnectionError string
  | Timeout string
  | TimeoutException string
  | NoSuchElementException string
  | KeyError string
  | OtherException string

text \<open>\<^verbatim>\<open>str(e)\<close>; for a \<^verbatim>\<open>KeyError\<close> Python prints the repr of the key, in quotes.\<close>

fun str_exn :: "exn \<Rightarrow> string" where
  "str_exn (HTTPError m) = m"
| "str_exn (ConnectionError m) = m"
| "str_exn (Timeout m) = m"
| "str_exn (TimeoutException m) = m"
| "str_exn (NoSuchElementException m) = m"
| "str_exn (KeyError k) = [CHR 0x27] @ k @ [CHR 0x27]"
| "str_exn (OtherException m) = m"

text \<open>\<^verbatim>\<open>isinstance(e, requests.RequestException)\<close>\<close>

fun is_RequestException :: "exn \<Rightarrow> bool" where
  "is_RequestException (HTTPError m) = True"
| "is_RequestException (ConnectionError m) = True"
| "is_RequestException (Timeout m) = True"
| "is_RequestException e = False"

fun is_TimeoutException :: "exn \<Rightarrow> bool" where
  "is_TimeoutException (TimeoutException m) = True"
| "is_TimeoutException e = False"

fun is_NoSuchElementException :: "exn \<Rightarrow> bool" where
  "is_NoSuchElementException (NoSuchElementException m) = True"
| "is_NoSuchElementException e = False"

datatype level = INFO | WARNING | ERROR

datatype locator = CSS_SELECTOR | XPATH

datatype event =
    Log level string
  | Sleep nat
  | Requests_get string string
  | Requests_post string string string string string
  | SMTP_connect string nat
  | SMTP_starttls
  | SMTP_login string string
  | SMTP_sendmail string string string string string
  | SMTP_quit
  | Chrome_start string
  | Driver_get string
  | Driver_quit
  | Wait_ready nat
  | Wait_visible nat locator string
  | Wait_clickable nat locator string
  | Wait_invisible nat locator string
  | Find_element locator string
  | Element_clear string
  | Element_send_keys string string
  | Element_send_RETURN string
  | Element_click string

section \<open>Configuration and the monitor object\<close>

text \<open>
  A product is a JSON object; the source reads \<^verbatim>\<open>name\<close> and \<^verbatim>\<open>url\<close> with
  \<^verbatim>\<open>product['...']\<close>, which raises \<^verbatim>\<open>KeyError\<close> when the key is missing, and the other
  keys with \<^verbatim>\<open>product.get\<close>, which does not. A missing key is \<open>None\<close>.
\<close>

record product =
  name :: "string option"
  url :: "string option"
  use_selenium :: bool
  pincode :: "string option"
  pincode_selectors :: "(string \<rightharpoonup> string) option"

record email_config =
  smtp_server :: string
  smtp_port :: nat
  sender_email :: string
  sender_password :: string
  recipient_email :: string

record config_t =
  email :: "email_config option"
  products :: "product list"
  check_interval :: nat
  user_agent :: "string option"

text \<open>\<^verbatim>\<open>self\<close>: the configuration and the browser handle (\<open>driver\<close> is \<^verbatim>\<open>self.driver is not None\<close>).\<close>

record StockMonitor =
  config :: config_t
  driver :: bool

text \<open>\<^verbatim>\<open>os.getenv\<close> for the two variables of the chat channel.\<close>

record os_environ =
  TELEGRAM_BOT_TOKEN :: "string option"
  TELEGRAM_CHAT_ID :: "string option"

section \<open>Methods as computations\<close>

text \<open>
  A method body is a function from \<^verbatim>\<open>self\<close> to the events it performed, its result
  (\<open>Inl\<close> an exception that left the body, \<open>Inr\<close> the returned value) and the updated
  \<^verbatim>\<open>self\<close>.
\<close>

type_synonym 'a io = "StockMonitor \<Rightarrow> event list \<times> (exn + 'a) \<times> StockMonitor"

definition io_return :: "'a \<Rightarrow> 'a io" where
  "io_return x = (\<lambda>self. ([], Inr x, self))"

definition io_raise :: "exn \<Rightarrow> 'a io" where
  "io_raise e = (\<lambda>self. ([], Inl e, self))"

definition io_bind :: "'a io \<Rightarrow> ('a \<Rightarrow> 'b io) \<Rightarrow> 'b io" where
  "io_bind m f = (\<lambda>self.
     case m self of
       (es, Inl e, self') \<Rightarrow> (es, Inl e, self')
     | (es, Inr x, self') \<Rightarrow> (case f x self' of (es', r, self'') \<Rightarrow> (es @ es', r, self'')))"

text \<open>\<^verbatim>\<open>try: m except C as e: h e\<close>, where \<open>C\<close> is the class test \<open>c\<close>.\<close>

definition io_except :: "'a io \<Rightarrow> (exn \<Rightarrow> bool) \<Rightarrow> (exn \<Rightarrow> 'a io) \<Rightarrow> 'a io" where
  "io_except m c h = (\<lambda>self.
     case m self of
       (es, Inl e, self') \<Rightarrow>
         (if c e then (case h e self' of (es', r, self'') \<Rightarrow> (es @ es', r, self''))
          else (es, Inl e, self'))
     | (es, Inr x, self') \<Rightarrow> (es, Inr x, self'))"

text \<open>\<^verbatim>\<open>except Exception\<close>: every value of \<open>exn\<close> is one.\<close>

definition is_Exception :: "exn \<Rightarrow> bool" where
  "is_Exception e = True"

text \<open>\<^verbatim>\<open>try: m finally: fin\<close>\<close>

definition io_finally :: "'a io \<Rightarrow> unit io \<Rightarrow> 'a io" where
  "io_finally m fin = (\<lambda>self.
     case m self of (es, r, self') \<Rightarrow>
       (case fin self' of
          (es', Inl e, self'') \<Rightarrow> (es @ es', Inl e, self'')
        | (es', Inr u, self'') \<Rightarrow> (es @ es', r, self'')))"

definition emit :: "event \<Rightarrow> unit io" where
  "emit ev = (\<lambda>self. ([ev], Inr (), self))"

text \<open>A call to the outside: the event happens, then the call returns or raises.\<close>

definition effect :: "event \<Rightarrow> exn option \<Rightarrow> unit io" where
  "effect ev outcome = (\<lambda>self. ([ev], (case outcome of None \<Rightarrow> Inr () | Some e \<Rightarrow> Inl e), self))"

text \<open>A call with no event of its own (parsing, building a message).\<close>

definition attempt :: "exn option \<Rightarrow> unit io" where
  "attempt outcome = (case outcome of None \<Rightarrow> io_return () | Some e \<Rightarrow> io_raise e)"

definition logger :: "level \<Rightarrow> string \<Rightarrow> unit io" where
  "logger l msg = emit (Log l msg)"

definition sleep :: "nat \<Rightarrow> unit io" where
  "sleep n = emit (Sleep n)"

text \<open>\<^verbatim>\<open>d[key]\<close>\<close>

definition getitem :: "'a option \<Rightarrow> string \<Rightarrow> 'a io" where
  "getitem v key = (case v of None \<Rightarrow> io_raise (KeyError key) | Some x \<Rightarrow> io_return x)"

text \<open>\<^verbatim>\<open>d.get(key, default)\<close>\<close>

definition dict_get :: "(string \<rightharpoonup> string) \<Rightarrow> string \<Rightarrow> string \<Rightarrow> string" where
  "dict_get d key dflt = (case d key of None \<Rightarrow> dflt | Some v \<Rightarrow> v)"

definition get_self :: "StockMonitor io" where
  "get_self = (\<lambda>self. ([], Inr self, self))"

definition set_driver :: "bool \<Rightarrow> unit io" where
  "set_driver d = (\<lambda>self. ([], Inr (), self\<lparr>driver := d\<rparr>))"

section \<open>Strings\<close>

text \<open>
  \<^verbatim>\<open>str.lower\<close> on the ASCII letters, and the substring test \<^verbatim>\<open>needle in haystack\<close>.
  The needle of the source, \<^verbatim>\<open>'sold out'\<close>, is ASCII, and no character outside ASCII
  lower-cases to one of its letters.
\<close>

definition lower_char :: "char \<Rightarrow> char" where
  "lower_char c =
     (let n = (of_char c :: nat) in if 65 \<le> n \<and> n \<le> 90 then char_of (n + 32) else c)"

definition lower :: "string \<Rightarrow> string" where
  "lower s = map lower_char s"

fun starts_with :: "string \<Rightarrow> string \<Rightarrow> bool" where
  "starts_with [] s = True"
| "starts_with (c # cs) [] = False"
| "starts_with (c # cs) (d # ds) = (c = d \<and> starts_with cs ds)"

fun str_in :: "string \<Rightarrow> string \<Rightarrow> bool" where
  "str_in needle [] = (needle = [])"
| "str_in needle (c # cs) = (starts_with needle (c # cs) \<or> str_in needle cs)"

text \<open>The em dash of the source's reason string, in UTF-8.\<close>

definition em_dash :: string where
  "em_dash = [CHR 0xE2, CHR 0x80, CHR 0x94]"

section \<open>The static checker\<close>

text \<open>
  The verdict is the pair \<^verbatim>\<open>(is_in_stock, message)\<close>: \<open>Some True\<close> in stock,
  \<open>Some False\<close> out of stock, \<open>None\<close> indeterminate.
\<close>

type_synonym verdict = "bool option \<times> string"

text \<open>
  What the outside does during one static check: \<^verbatim>\<open>requests.get\<close>,
  \<^verbatim>\<open>response.raise_for_status()\<close>, the \<^verbatim>\<open>BeautifulSoup\<close> constructor, and
  \<^verbatim>\<open>soup.select_one\<close>, which returns \<open>None\<close> or the first matching element, given by
  its \<^verbatim>\<open>.text\<close>.
\<close>

record requests_env =
  requests_get :: "exn option"
  raise_for_status :: "exn option"
  BeautifulSoup :: "exn option"
  select_one :: "string option"

definition sold_out_reason :: string where
  "sold_out_reason = ''Explicit 'Sold Out' alert found''"

definition in_stock_reason :: string where
  "in_stock_reason = ''No 'Sold Out' alert '' @ em_dash @ '' assuming product is in stock''"

text \<open>
  The two \<^verbatim>\<open>except\<close> clauses of the source are one handler that tests the class of the
  exception in the order of the clauses: an exception raised inside a clause is not caught
  by the other one.
\<close>

definition check_stock_with_requests :: "product \<Rightarrow> requests_env \<Rightarrow> verdict io" where
  "check_stock_with_requests product env =
     io_except
       (io_bind get_self (\<lambda>self.
        io_bind (getitem (user_agent (config self)) ''user_agent'') (\<lambda>ua.
        io_bind (getitem (url product) ''url'') (\<lambda>u.
        io_bind (effect (Requests_get u ua) (requests_get env)) (\<lambda>_.
        io_bind (attempt (raise_for_status env)) (\<lambda>_.
        io_bind (attempt (BeautifulSoup env)) (\<lambda>_.
          (case select_one env of
             None \<Rightarrow> io_return (Some True, in_stock_reason)
           | Some text \<Rightarrow>
               if str_in ''sold out'' (lower text)
               then io_return (Some False, sold_out_reason)
               else io_return (Some True, in_stock_reason)))))))))
       is_Exception
       (\<lambda>e. if is_RequestException e
             then io_bind (getitem (name product) ''name'') (\<lambda>n.
                  io_bind (logger ERROR (''Request failed for '' @ n @ '': '' @ str_exn e)) (\<lambda>_.
                  io_return (None, ''Request failed: '' @ str_exn e)))
             else io_bind (getitem (name product) ''name'') (\<lambda>n.
                  io_bind (logger ERROR (''Error checking '' @ n @ '': '' @ str_exn e)) (\<lambda>_.
                  io_return (None, ''Error: '' @ str_exn e))))"

section \<open>The pincode modal\<close>

text \<open>
  What the browser answers to each call of \<^verbatim>\<open>handle_pincode_modal\<close>, in the order of the
  source: \<open>None\<close> when the call returns, \<open>Some e\<close> when it raises \<open>e\<close>
  (\<^verbatim>\<open>WebDriverWait(...).until\<close> raises \<^verbatim>\<open>TimeoutException\<close> when its condition did not
  hold within the wait).
\<close>

record modal_env =
  wait_modal_visible :: "exn option"
  wait_input_clickable :: "exn option"
  find_input :: "exn option"
  input_clear :: "exn option"
  input_send_keys :: "exn option"
  wait_dropdown_clickable :: "exn option"
  dropdown_click :: "exn option"
  find_submit :: "exn option"
  submit_click :: "exn option"
  input_send_RETURN :: "exn option"
  wait_modal_invisible :: "exn option"

text \<open>\<^verbatim>\<open>not pincode\<close>: the key is missing or the string is empty.\<close>

definition falsy :: "string option \<Rightarrow> bool" where
  "falsy v = (case v of None \<Rightarrow> True | Some s \<Rightarrow> s = [])"

definition dropdown_xpath :: "string \<Rightarrow> string" where
  "dropdown_xpath pin = ''//p[contains(@class, 'item-name') and text()='' @ [CHR 0x27] @ pin @ [CHR 0x27] @ '']''"

text \<open>
  The first \<^verbatim>\<open>try\<close> block either falls through (\<open>None\<close>) or makes the method return
  (\<open>Some\<close> the returned value).
\<close>

definition handle_pincode_modal :: "product \<Rightarrow> modal_env \<Rightarrow> bool io" where
  "handle_pincode_modal product env =
     io_except
       (case pincode product of
          None \<Rightarrow> io_return True
        | Some pin \<Rightarrow>
          if falsy (Some pin) then io_return True
          else
            (let selectors = (case pincode_selectors product of None \<Rightarrow> Map.empty | Some d \<Rightarrow> d);
                 modal_selector = dict_get selectors ''modal'' ''#locationWidgetModal'';
                 input_selector = dict_get selectors ''input'' ''#search''
             in
             io_bind
               (io_except
                  (io_bind (effect (Wait_visible 5 CSS_SELECTOR modal_selector) (wait_modal_visible env)) (\<lambda>_.
                   io_bind (effect (Wait_clickable 5 CSS_SELECTOR input_selector) (wait_input_clickable env)) (\<lambda>_.
                   io_bind (logger INFO ''Pincode modal detected and active'') (\<lambda>_.
                   io_return None))))
                  is_TimeoutException
                  (\<lambda>e. io_bind (logger INFO ''No active pincode modal found'') (\<lambda>_.
                        io_return (Some True))))
               (\<lambda>returned.
                  case returned of
                    Some b \<Rightarrow> io_return b
                  | None \<Rightarrow>
                    io_bind (effect (Find_element CSS_SELECTOR input_selector) (find_input env)) (\<lambda>_.
                    io_bind (effect (Element_clear input_selector) (input_clear env)) (\<lambda>_.
                    io_bind (effect (Element_send_keys input_selector pin) (input_send_keys env)) (\<lambda>_.
                    io_bind (logger INFO (''Entered pincode: '' @ pin)) (\<lambda>_.
                    io_bind
                      (io_except
                         (io_bind (effect (Wait_clickable 10 XPATH (dropdown_xpath pin)) (wait_dropdown_clickable env)) (\<lambda>_.
                          io_bind (effect (Element_click (dropdown_xpath pin)) (dropdown_click env)) (\<lambda>_.
                          logger INFO (''Selected matching pincode from dropdown: '' @ pin))))
                         is_TimeoutException
                         (\<lambda>e. logger WARNING (''Dropdown with pincode '' @ pin @ '' not found. Trying to proceed without it.'')))
                      (\<lambda>_.
                    let submit_selector = dict_get selectors ''submit_button'' ''.btn-success'' in
                    io_bind
                      (io_except
                         (io_bind (effect (Find_element CSS_SELECTOR submit_selector) (find_submit env)) (\<lambda>_.
                          io_bind (effect (Element_click submit_selector) (submit_click env)) (\<lambda>_.
                          logger INFO ''Clicked submit button'')))
                         is_NoSuchElementException
                         (\<lambda>e. io_bind (effect (Element_send_RETURN input_selector) (input_send_RETURN env)) (\<lambda>_.
                               logger INFO ''Pressed Enter on pincode input'')))
                      (\<lambda>_.
                    io_bind (effect (Wait_invisible 10 CSS_SELECTOR modal_selector) (wait_modal_invisible env)) (\<lambda>_.
                    io_bind (sleep 2) (\<lambda>_.
                    io_bind (logger INFO ''Pincode modal handled successfully'') (\<lambda>_.
                    io_return True))))))))))))
       is_Exception
       (\<lambda>e. io_bind (logger ERROR (''Failed to handle pincode modal: '' @ str_exn e)) (\<lambda>_.
             io_return False))"

section \<open>The dynamic checker\<close>

text \<open>
  \<open>find_alert\<close> is what \<^verbatim>\<open>find_element(By.CSS_SELECTOR, 'div.alert.alert-danger')\<close> does:
  it raises (\<^verbatim>\<open>NoSuchElementException\<close> when no element matches) or returns the element,
  given by its \<^verbatim>\<open>.text\<close>.
\<close>

record selenium_env =
  webdriver_Chrome :: "exn option"
  driver_get :: "exn option"
  modal_e :: modal_env
  wait_ready :: "exn option"
  find_alert :: "exn + string"

definition effect_result :: "event \<Rightarrow> exn + 'a \<Rightarrow> 'a io" where
  "effect_result ev outcome = (\<lambda>self. ([ev], outcome, self))"

definition setup_selenium_driver :: "selenium_env \<Rightarrow> bool io" where
  "setup_selenium_driver env =
     io_bind get_self (\<lambda>self.
       if driver self then io_return True
       else
         io_except
           (io_bind (getitem (user_agent (config self)) ''user_agent'') (\<lambda>ua.
            io_bind (effect (Chrome_start ua) (webdriver_Chrome env)) (\<lambda>_.
            io_bind (set_driver True) (\<lambda>_.
            io_bind (logger INFO ''Selenium driver setup successful'') (\<lambda>_.
            io_return True)))))
           is_Exception
           (\<lambda>e. io_bind (logger ERROR (''Failed to setup Selenium driver: '' @ str_exn e)) (\<lambda>_.
                 io_return False)))"

definition fallback_reason :: string where
  "fallback_reason = ''Unable to determine stock status from alert element''"

definition alert_selector :: string where
  "alert_selector = ''div.alert.alert-danger''"

definition check_stock_with_selenium :: "product \<Rightarrow> selenium_env \<Rightarrow> verdict io" where
  "check_stock_with_selenium product env =
     io_except
       (io_bind get_self (\<lambda>self.
        io_bind (if \<not> driver self
                 then io_bind (setup_selenium_driver env) (\<lambda>d.
                      io_bind (set_driver d) (\<lambda>_. io_return d))
                 else io_return True) (\<lambda>d.
        if \<not> d then io_return (None, ''Selenium driver setup failed'')
        else
          io_bind (getitem (url product) ''url'') (\<lambda>u.
          io_bind (effect (Driver_get u) (driver_get env)) (\<lambda>_.
          io_bind (handle_pincode_modal product (modal_e env)) (\<lambda>ok.
          if \<not> ok then io_return (None, ''Failed to handle pincode modal'')
          else
            io_bind (effect (Wait_ready 15) (wait_ready env)) (\<lambda>_.
            io_except
              (io_bind (effect_result (Find_element CSS_SELECTOR alert_selector) (find_alert env)) (\<lambda>text.
                 if str_in ''sold out'' (lower text)
                 then io_return (Some False, sold_out_reason)
                 else io_return (Some False, fallback_reason)))
              is_NoSuchElementException
              (\<lambda>e. io_return (Some True, in_stock_reason)))))))))
       is_Exception
       (\<lambda>e. io_bind (getitem (name product) ''name'') (\<lambda>n.
             io_bind (logger ERROR (''Selenium check failed for '' @ n @ '': '' @ str_exn e)) (\<lambda>_.
             io_return (None, ''Selenium error: '' @ str_exn e))))"

definition check_stock_status :: "product \<Rightarrow> requests_env \<Rightarrow> selenium_env \<Rightarrow> verdict io" where
  "check_stock_status product renv senv =
     (if use_selenium product then check_stock_with_selenium product senv
      else check_stock_with_requests product renv)"

section \<open>The two notification channels\<close>

text \<open>
  The mail channel: \<open>compose\<close> is the construction of the MIME message, the other fields
  are the calls on the SMTP session, in the order of the source.
\<close>

record smtp_env =
  compose :: "exn option"
  SMTP :: "exn option"
  starttls :: "exn option"
  login :: "exn option"
  sendmail :: "exn option"
  quit :: "exn option"

definition send_notification :: "smtp_env \<Rightarrow> string \<Rightarrow> string \<Rightarrow> string \<Rightarrow> bool io" where
  "send_notification env product_name product_url message =
     io_except
       (io_bind get_self (\<lambda>self.
        io_bind (getitem (email (config self)) ''email'') (\<lambda>email_config.
        io_bind (attempt (compose env)) (\<lambda>_.
        io_bind (effect (SMTP_connect (smtp_server email_config) (smtp_port email_config)) (SMTP env)) (\<lambda>_.
        io_bind (effect SMTP_starttls (starttls env)) (\<lambda>_.
        io_bind (effect (SMTP_login (sender_email email_config) (sender_password email_config)) (login env)) (\<lambda>_.
        io_bind (effect (SMTP_sendmail (sender_email email_config) (recipient_email email_config)
                           product_name product_url message) (sendmail env)) (\<lambda>_.
        io_bind (effect SMTP_quit (quit env)) (\<lambda>_.
        io_bind (logger INFO (''Notification sent for '' @ product_name)) (\<lambda>_.
        io_return True))))))))))
       is_Exception
       (\<lambda>e. io_bind (logger ERROR (''Failed to send notification: '' @ str_exn e)) (\<lambda>_.
             io_return False))"

text \<open>
  The chat channel: \<^verbatim>\<open>requests.post\<close> to the bot API, then
  \<^verbatim>\<open>response.raise_for_status()\<close>. The event carries the URL, the chat id and the three
  values the message text is built from.
\<close>

record telegram_env =
  requests_post :: "exn option"
  post_raise_for_status :: "exn option"

definition send_telegram_notification ::
    "os_environ \<Rightarrow> telegram_env \<Rightarrow> string \<Rightarrow> string \<Rightarrow> string \<Rightarrow> bool io" where
  "send_telegram_notification environ env product_name product_url message =
     (if falsy (TELEGRAM_BOT_TOKEN environ) \<or> falsy (TELEGRAM_CHAT_ID environ) then io_return False
      else
        (case (TELEGRAM_BOT_TOKEN environ, TELEGRAM_CHAT_ID environ) of
           (Some bot_token, Some chat_id) \<Rightarrow>
             io_except
               (io_bind (effect (Requests_post (''https://api.telegram.org/bot'' @ bot_token @ ''/sendMessage'')
                                  chat_id product_name product_url message) (requests_post env)) (\<lambda>_.
                io_bind (attempt (post_raise_for_status env)) (\<lambda>_.
                io_bind (logger INFO (''Telegram notification sent for '' @ product_name)) (\<lambda>_.
                io_return True))))
               is_Exception
               (\<lambda>e. io_bind (logger ERROR (''Failed to send Telegram notification: '' @ str_exn e)) (\<lambda>_.
                     io_return False))
         | _ \<Rightarrow> io_return False))"

section \<open>The scheduler loops\<close>

text \<open>Everything the outside does while one product is processed.\<close>

record check_env =
  requests_e :: requests_env
  selenium_e :: selenium_env
  smtp_e :: smtp_env
  telegram_e :: telegram_env

text \<open>The body of the \<^verbatim>\<open>for\<close> loop of \<^verbatim>\<open>run_single_check\<close>; \<^verbatim>\<open>continue\<close> ends the body.\<close>

definition single_body :: "os_environ \<Rightarrow> check_env \<Rightarrow> product \<Rightarrow> unit io" where
  "single_body environ env product =
     io_bind (getitem (name product) ''name'') (\<lambda>product_name.
     io_bind (logger INFO (''Checking '' @ product_name @ ''...'')) (\<lambda>_.
     io_bind (check_stock_status product (requests_e env) (selenium_e env)) (\<lambda>(is_in_stock, message).
       case is_in_stock of
         None \<Rightarrow> io_return ()
       | Some b \<Rightarrow>
           io_bind
             (if b
              then io_bind (logger INFO (''ALERT: '' @ product_name @ '' is IN STOCK!'')) (\<lambda>_.
                   io_bind (getitem (url product) ''url'') (\<lambda>u.
                   io_bind (send_notification (smtp_e env) product_name u message) (\<lambda>_.
                   io_bind (getitem (url product) ''url'') (\<lambda>u'.
                   io_bind (send_telegram_notification environ (telegram_e env) product_name u' message) (\<lambda>_.
                   io_return ())))))
              else logger INFO (''WAITING: '' @ product_name @ '' is out of stock''))
             (\<lambda>_. sleep 2))))"

text \<open>
  The \<^verbatim>\<open>for\<close> loop: the product at position \<open>i\<close> of the list meets the outside
  \<open>envs i\<close>. An exception that leaves the body leaves the loop.
\<close>

fun single_for :: "os_environ \<Rightarrow> (nat \<Rightarrow> check_env) \<Rightarrow> nat \<Rightarrow> product list \<Rightarrow> unit io" where
  "single_for environ envs i [] = io_return ()"
| "single_for environ envs i (product # rest) =
     io_bind (single_body environ (envs i) product) (\<lambda>_. single_for environ envs (Suc i) rest)"

definition run_single_check :: "os_environ \<Rightarrow> (nat \<Rightarrow> check_env) \<Rightarrow> exn option \<Rightarrow> unit io" where
  "run_single_check environ envs driver_quit =
     io_bind (logger INFO ''Starting single stock check...'') (\<lambda>_.
     io_finally
       (io_except
          (io_bind get_self (\<lambda>self. single_for environ envs 0 (products (config self))))
          is_Exception
          (\<lambda>e. logger ERROR (''Unexpected error during check: '' @ str_exn e)))
       (io_bind get_self (\<lambda>self.
          if driver self
          then io_bind (effect Driver_quit driver_quit) (\<lambda>_. logger INFO ''Browser closed'')
          else io_return ())))"

text \<open>
  The tracker \<^verbatim>\<open>last_status\<close> is a dictionary from product names to the last verdict
  recorded. The body of the \<^verbatim>\<open>for\<close> loop of \<^verbatim>\<open>monitor_products\<close> returns the updated
  dictionary; when the body raises, the dictionary is as it was, since the assignment is
  the last statement before the pause.
\<close>

type_synonym last_status_t = "string \<rightharpoonup> bool"

definition monitor_body ::
    "os_environ \<Rightarrow> check_env \<Rightarrow> last_status_t \<Rightarrow> product \<Rightarrow> last_status_t io" where
  "monitor_body environ env last_status product =
     io_bind (getitem (name product) ''name'') (\<lambda>product_name.
     io_bind (logger INFO (''Checking '' @ product_name @ ''...'')) (\<lambda>_.
     io_bind (check_stock_status product (requests_e env) (selenium_e env)) (\<lambda>(is_in_stock, message).
       case is_in_stock of
         None \<Rightarrow> io_return last_status
       | Some b \<Rightarrow>
           io_bind
             (if b \<and> (last_status product_name = None \<or> last_status product_name = Some False)
              then io_bind (logger INFO (''ALERT: '' @ product_name @ '' is NOW IN STOCK!'')) (\<lambda>_.
                   io_bind (getitem (url product) ''url'') (\<lambda>u.
                   io_bind (send_notification (smtp_e env) product_name u message) (\<lambda>_.
                   io_bind (getitem (url product) ''url'') (\<lambda>u'.
                   io_bind (send_telegram_notification environ (telegram_e env) product_name u' message) (\<lambda>_.
                   io_return ())))))
              else if b then logger INFO (''OK: '' @ product_name @ '' is in stock'')
              else logger INFO (''WAITING: '' @ product_name @ '' is out of stock''))
             (\<lambda>_.
           io_bind (sleep 2) (\<lambda>_.
           io_return (last_status(product_name \<mapsto> b)))))))"

text \<open>
  One pass of the \<^verbatim>\<open>for\<close> loop inside the \<^verbatim>\<open>try\<close> of \<^verbatim>\<open>monitor_products\<close>. The pass
  returns the dictionary as the loop left it, and the exception that ended the loop, if
  one did.
\<close>

fun monitor_for ::
    "os_environ \<Rightarrow> (nat \<Rightarrow> check_env) \<Rightarrow> nat \<Rightarrow> last_status_t \<Rightarrow> product list
       \<Rightarrow> (last_status_t \<times> exn option) io" where
  "monitor_for environ envs i last_status [] = io_return (last_status, None)"
| "monitor_for environ envs i last_status (product # rest) =
     io_bind
       (io_except
          (io_bind (monitor_body environ (envs i) last_status product) (\<lambda>ls. io_return (Inr ls)))
          is_Exception
          (\<lambda>e. io_return (Inl e)))
       (\<lambda>r. case r of
               Inl e \<Rightarrow> io_return (last_status, Some e)
             | Inr ls \<Rightarrow> monitor_for environ envs (Suc i) ls rest)"

text \<open>\<^verbatim>\<open>str(n)\<close> for a natural number.\<close>

fun digit :: "nat \<Rightarrow> char" where
  "digit n = char_of (48 + n)"

function str_nat :: "nat \<Rightarrow> string" where
  "str_nat n = (if n < 10 then [digit n] else str_nat (n div 10) @ [digit (n mod 10)])"
  by pat_completeness auto
termination
  by (relation "measure (\<lambda>n. n)") auto

text \<open>
  The \<^verbatim>\<open>while True\<close> loop. It ends only by \<^verbatim>\<open>KeyboardInterrupt\<close>; \<open>interrupt p\<close> says
  whether the signal arrives during the pause that closes pass \<open>p\<close>. The first argument
  bounds the number of passes that are run: the result \<open>None\<close> says that the loop is still
  running after that many passes, \<open>Some\<close> gives the tracker at the \<^verbatim>\<open>break\<close>.
\<close>

fun monitor_while ::
    "nat \<Rightarrow> os_environ \<Rightarrow> (nat \<Rightarrow> nat \<Rightarrow> check_env) \<Rightarrow> (nat \<Rightarrow> bool) \<Rightarrow> nat \<Rightarrow> last_status_t
       \<Rightarrow> last_status_t option io" where
  "monitor_while 0 environ world interrupt p last_status = io_return None"
| "monitor_while (Suc fuel) environ world interrupt p last_status =
     io_bind get_self (\<lambda>self.
     io_bind (monitor_for environ (world p) 0 last_status (products (config self))) (\<lambda>(ls, r).
       case r of
         Some e \<Rightarrow>
           io_bind (logger ERROR (''Unexpected error: '' @ str_exn e)) (\<lambda>_.
           io_bind (sleep 60) (\<lambda>_.
           monitor_while fuel environ world interrupt (Suc p) ls))
       | None \<Rightarrow>
           io_bind (logger INFO (''Waiting '' @ str_nat (check_interval (config self))
                                  @ '' seconds before next check...'')) (\<lambda>_.
           io_bind (sleep (check_interval (config self))) (\<lambda>_.
           if interrupt p
           then io_bind (logger INFO ''Monitor stopped by user'') (\<lambda>_. io_return (Some ls))
           else monitor_while fuel environ world interrupt (Suc p) ls))))"

definition monitor_products ::
    "nat \<Rightarrow> os_environ \<Rightarrow> (nat \<Rightarrow> nat \<Rightarrow> check_env) \<Rightarrow> (nat \<Rightarrow> bool) \<Rightarrow> exn option
       \<Rightarrow> last_status_t option io" where
  "monitor_products fuel environ world interrupt driver_quit =
     io_bind (logger INFO ''Starting continuous stock monitor...'') (\<lambda>_.
     io_bind (monitor_while fuel environ world interrupt 0 Map.empty) (\<lambda>r.
       case r of
         None \<Rightarrow> io_return None
       | Some ls \<Rightarrow>
           io_bind get_self (\<lambda>self.
           io_bind (if driver self then effect Driver_quit driver_quit else io_return ()) (\<lambda>_.
           io_return (Some ls)))))"

section \<open>Notions used to state the properties\<close>

text \<open>
  Following the words of the specification: a text contains the case-insensitive
  substring \<^verbatim>\<open>sold out\<close> when one of its substrings is \<^verbatim>\<open>sold out\<close> up to the case of
  its letters.
\<close>

definition contains_sold_out :: "string \<Rightarrow> bool" where
  "contains_sold_out text = (\<exists>a w b. text = a @ w @ b \<and> lower w = ''sold out'')"

text \<open>
  The first call of the static check that raises, in the order of the source: the two
  dictionary reads, the fetch, the status check, the parser.
\<close>

definition requests_failure :: "product \<Rightarrow> requests_env \<Rightarrow> StockMonitor \<Rightarrow> exn option" where
  "requests_failure product env self =
     (case user_agent (config self) of
        None \<Rightarrow> Some (KeyError ''user_agent'')
      | Some ua \<Rightarrow>
          (case url product of
             None \<Rightarrow> Some (KeyError ''url'')
           | Some u \<Rightarrow>
               (case requests_get env of
                  Some e \<Rightarrow> Some e
                | None \<Rightarrow>
                    (case raise_for_status env of
                       Some e \<Rightarrow> Some e
                     | None \<Rightarrow> BeautifulSoup env))))"

text \<open>The events of the two notification channels: the SMTP session and the POST to the bot API.\<close>

fun is_notification :: "event \<Rightarrow> bool" where
  "is_notification (SMTP_connect h p) = True"
| "is_notification SMTP_starttls = True"
| "is_notification (SMTP_login u p) = True"
| "is_notification (SMTP_sendmail a b c d e) = True"
| "is_notification SMTP_quit = True"
| "is_notification (Requests_post a b c d e) = True"
| "is_notification ev = False"

definition notifications :: "event list \<Rightarrow> event list" where
  "notifications evs = filter is_notification evs"

text \<open>A computation that performs no event of a notification channel, whatever \<^verbatim>\<open>self\<close> is.\<close>

definition silent :: "'a io \<Rightarrow> bool" where
  "silent m = (\<forall>self. notifications (fst (m self)) = [])"

text \<open>A computation whose events and result do not depend on \<^verbatim>\<open>self\<close> and that leaves it as it was.\<close>

definition self_free :: "'a io \<Rightarrow> bool" where
  "self_free m = (\<exists>evs r. \<forall>self. m self = (evs, r, self))"

section \<open>Concrete products and environments\<close>

definition widget :: product where
  "widget = \<lparr>name = Some ''Widget'', url = Some ''https://shop.example/widget'',
             use_selenium = False, pincode = None, pincode_selectors = None\<rparr>"

definition gadget :: product where
  "gadget = \<lparr>name = Some ''Gadget'', url = Some ''https://shop.example/gadget'',
             use_selenium = True, pincode = Some ''110001'', pincode_selectors = None\<rparr>"

definition nameless :: product where
  "nameless = \<lparr>name = None, url = Some ''https://shop.example/other'',
               use_selenium = False, pincode = None, pincode_selectors = None\<rparr>"

definition quiet_requests :: requests_env where
  "quiet_requests = \<lparr>requests_get = None, raise_for_status = None, BeautifulSoup = None,
                     select_one = None\<rparr>"

definition quiet_modal :: modal_env where
  "quiet_modal = \<lparr>wait_modal_visible = None, wait_input_clickable = None, find_input = None,
                  input_clear = None, input_send_keys = None, wait_dropdown_clickable = None,
                  dropdown_click = None, find_submit = None, submit_click = None,
                  input_send_RETURN = None, wait_modal_invisible = None\<rparr>"

definition quiet_selenium :: selenium_env where
  "quiet_selenium = \<lparr>webdriver_Chrome = None, driver_get = None, modal_e = quiet_modal,
                     wait_ready = None, find_alert = Inl (NoSuchElementException ''no such element'')\<rparr>"

definition quiet_smtp :: smtp_env where
  "quiet_smtp = \<lparr>compose = None, SMTP = None, starttls = None, login = None, sendmail = None,
                 quit = None\<rparr>"

definition quiet_telegram :: telegram_env where
  "quiet_telegram = \<lparr>requests_post = None, post_raise_for_status = None\<rparr>"

definition quiet_check :: check_env where
  "quiet_check = \<lparr>requests_e = quiet_requests, selenium_e = quiet_selenium, smtp_e = quiet_smtp,
                  telegram_e = quiet_telegram\<rparr>"

definition quiet_world :: "nat \<Rightarrow> check_env" where
  "quiet_world i = quiet_check"

definition no_telegram :: os_environ where
  "no_telegram = \<lparr>TELEGRAM_BOT_TOKEN = None, TELEGRAM_CHAT_ID = None\<rparr>"

definition example_email :: email_config where
  "example_email = \<lparr>smtp_server = ''smtp.gmail.com'', smtp_port = 587,
                    sender_email = ''bot@example.org'', sender_password = ''secret'',
                    recipient_email = ''me@example.org''\<rparr>"

definition example_monitor :: "product list \<Rightarrow> StockMonitor" where
  "example_monitor ps =
     \<lparr>config = \<lparr>email = Some example_email, products = ps, check_interval = 300,
                user_agent = Some ''Mozilla/5.0''\<rparr>,
      driver = False\<rparr>"

definition no_modal :: modal_env where
  "no_modal = quiet_modal\<lparr>wait_modal_visible := Some (TimeoutException ''Message: '')\<rparr>"

definition stuck_input :: modal_env where
  "stuck_input = quiet_modal\<lparr>wait_input_clickable := Some (TimeoutException ''Message: '')\<rparr>"

definition sold_out_requests :: requests_env where
  "sold_out_requests = quiet_requests\<lparr>select_one := Some ''Sold Out''\<rparr>"

definition failing_requests :: requests_env where
  "failing_requests = quiet_requests\<lparr>requests_get := Some (ConnectionError ''connection refused'')\<rparr>"

definition other_alert_selenium :: selenium_env where
  "other_alert_selenium = quiet_selenium\<lparr>find_alert := Inr ''Only 2 left''\<rparr>"

definition running_monitor :: "product list \<Rightarrow> StockMonitor" where
  "running_monitor ps = (example_monitor ps)\<lparr>driver := True\<rparr>"

section \<open>Computations: basic facts\<close>

lemmas io_defs = io_return_def io_raise_def io_bind_def io_except_def io_finally_def emit_def
  effect_def attempt_def logger_def sleep_def getitem_def get_self_def set_driver_def
  effect_result_def is_Exception_def

lemmas example_defs = widget_def gadget_def nameless_def quiet_requests_def quiet_modal_def
  quiet_selenium_def quiet_smtp_def quiet_telegram_def quiet_check_def quiet_world_def
  no_telegram_def example_email_def example_monitor_def

section \<open>The substring test\<close>

lemma starts_with_iff: "starts_with n h \<longleftrightarrow> (\<exists>b. h = n @ b)"
  by (induction n h rule: starts_with.induct) auto

lemma str_in_iff: "str_in n h \<longleftrightarrow> (\<exists>a b. h = a @ n @ b)"
proof (induction h)
  case Nil
  then show ?case by auto
next
  case (Cons c cs)
  show ?case
  proof
    assume "str_in n (c # cs)"
    then consider "starts_with n (c # cs)" | "str_in n cs" by auto
    then show "\<exists>a b. c # cs = a @ n @ b"
    proof cases
      case 1
      then obtain b where "c # cs = n @ b" using starts_with_iff by blast
      then have "c # cs = [] @ n @ b" by simp
      then show ?thesis by blast
    next
      case 2
      then obtain a b where "cs = a @ n @ b" using Cons.IH by blast
      then have "c # cs = (c # a) @ n @ b" by simp
      then show ?thesis by blast
    qed
  next
    assume "\<exists>a b. c # cs = a @ n @ b"
    then obtain a b where ab: "c # cs = a @ n @ b" by blast
    show "str_in n (c # cs)"
    proof (cases a)
      case Nil
      with ab have "starts_with n (c # cs)" using starts_with_iff by auto
      then show ?thesis by simp
    next
      case (Cons x xs)
      with ab have "cs = xs @ n @ b" by simp
      then have "str_in n cs" using Cons.IH by blast
      then show ?thesis by simp
    qed
  qed
qed

lemma lower_append: "lower (a @ b) = lower a @ lower b"
  by (simp add: lower_def)

text \<open>The test of the source is the case-insensitive containment of the specification.\<close>

lemma sold_out_test: "str_in ''sold out'' (lower text) \<longleftrightarrow> contains_sold_out text"
proof
  assume "str_in ''sold out'' (lower text)"
  then obtain a b where ab: "lower text = a @ ''sold out'' @ b" using str_in_iff by blast
  define w where "w = take 8 (drop (length a) text)"
  have e1: "take (length a) text @ drop (length a) text = text"
    by (rule append_take_drop_id)
  have e2: "take 8 (drop (length a) text) @ drop 8 (drop (length a) text) = drop (length a) text"
    by (rule append_take_drop_id)
  have "take (length a) text @ take 8 (drop (length a) text) @ drop 8 (drop (length a) text) = text"
    by (simp only: e2 e1)
  then have "text = take (length a) text @ w @ drop 8 (drop (length a) text)"
    unfolding w_def by (rule sym)
  moreover have "lower w = ''sold out''"
  proof -
    have "lower w = take 8 (drop (length a) (lower text))"
      by (simp add: w_def lower_def take_map drop_map)
    also have "\<dots> = ''sold out''" by (simp add: ab)
    finally show ?thesis .
  qed
  ultimately show "contains_sold_out text" unfolding contains_sold_out_def by blast
next
  assume "contains_sold_out text"
  then obtain a w b where "text = a @ w @ b" "lower w = ''sold out''"
    unfolding contains_sold_out_def by blast
  then have "lower text = lower a @ ''sold out'' @ lower b" by (simp add: lower_append)
  then show "str_in ''sold out'' (lower text)" using str_in_iff by blast
qed

section \<open>The pincode modal: properties\<close>

text \<open>
  Claim C7. For every product with no configured pincode value (the key is missing, or
  its value is the empty string), \<^verbatim>\<open>handle_pincode_modal\<close> returns \<open>True\<close> at once: its
  trace is empty, so it made no call to the browser, and it wrote no log line.
\<close>

theorem handle_pincode_modal_no_pincode:
  assumes "pincode product = None \<or> pincode product = Some []"
  shows "handle_pincode_modal product env self = ([], Inr True, self)"
  using assms
proof
  assume "pincode product = None"
  then show ?thesis by (simp add: handle_pincode_modal_def io_defs)
next
  assume "pincode product = Some []"
  then show ?thesis by (simp add: handle_pincode_modal_def io_defs falsy_def)
qed

theorem handle_pincode_modal_no_pincode_witness:
  "(pincode widget = None \<or> pincode widget = Some []) \<and>
   handle_pincode_modal widget quiet_modal (example_monitor [widget])
     = ([], Inr True, example_monitor [widget])"
  using handle_pincode_modal_no_pincode [of widget quiet_modal "example_monitor [widget]"]
  by (simp add: widget_def)

text \<open>
  Claim C8. For every product with a configured pincode, when the wait for the modal
  container to become visible (5 seconds) ends by \<^verbatim>\<open>TimeoutException\<close>,
  \<^verbatim>\<open>handle_pincode_modal\<close> returns \<open>True\<close>: the only call to the browser is that wait, the
  log line is the informational one of the no-modal case, and no failure is reported.
\<close>

theorem handle_pincode_modal_never_visible:
  assumes "pincode product = Some pin" and "pin \<noteq> []"
    and "wait_modal_visible env = Some (TimeoutException m)"
  shows "handle_pincode_modal product env self =
     ([Wait_visible 5 CSS_SELECTOR
         (dict_get (case pincode_selectors product of None \<Rightarrow> Map.empty | Some d \<Rightarrow> d)
            ''modal'' ''#locationWidgetModal''),
       Log INFO ''No active pincode modal found''],
      Inr True, self)"
  using assms
  by (simp add: handle_pincode_modal_def io_defs falsy_def Let_def)

theorem handle_pincode_modal_never_visible_witness:
  "pincode gadget = Some ''110001'' \<and> ''110001'' \<noteq> [] \<and>
   wait_modal_visible no_modal = Some (TimeoutException ''Message: '') \<and>
   handle_pincode_modal gadget no_modal (example_monitor [gadget]) =
     ([Wait_visible 5 CSS_SELECTOR ''#locationWidgetModal'',
       Log INFO ''No active pincode modal found''],
      Inr True, example_monitor [gadget])"
  using handle_pincode_modal_never_visible
          [of gadget "''110001''" no_modal "''Message: ''" "example_monitor [gadget]"]
  by (simp add: gadget_def no_modal_def quiet_modal_def dict_get_def)

text \<open>
  Claim C10. For every product with a configured pincode, when the modal container
  became visible but the wait for its text input to become clickable (5 seconds) ends by
  \<^verbatim>\<open>TimeoutException\<close>, \<^verbatim>\<open>handle_pincode_modal\<close> returns \<open>True\<close>: the trace holds the two
  waits and the log line of the no-modal case, and nothing else, so the pincode was not
  typed and no failure is reported.
\<close>

theorem handle_pincode_modal_input_not_clickable:
  assumes "pincode product = Some pin" and "pin \<noteq> []"
    and "wait_modal_visible env = None"
    and "wait_input_clickable env = Some (TimeoutException m)"
  shows "handle_pincode_modal product env self =
     ([Wait_visible 5 CSS_SELECTOR
         (dict_get (case pincode_selectors product of None \<Rightarrow> Map.empty | Some d \<Rightarrow> d)
            ''modal'' ''#locationWidgetModal''),
       Wait_clickable 5 CSS_SELECTOR
         (dict_get (case pincode_selectors product of None \<Rightarrow> Map.empty | Some d \<Rightarrow> d)
            ''input'' ''#search''),
       Log INFO ''No active pincode modal found''],
      Inr True, self)"
  using assms
  by (simp add: handle_pincode_modal_def io_defs falsy_def Let_def)

theorem handle_pincode_modal_input_not_clickable_witness:
  "pincode gadget = Some ''110001'' \<and> ''110001'' \<noteq> [] \<and>
   wait_modal_visible stuck_input = None \<and>
   wait_input_clickable stuck_input = Some (TimeoutException ''Message: '') \<and>
   handle_pincode_modal gadget stuck_input (example_monitor [gadget]) =
     ([Wait_visible 5 CSS_SELECTOR ''#locationWidgetModal'',
       Wait_clickable 5 CSS_SELECTOR ''#search'',
       Log INFO ''No active pincode modal found''],
      Inr True, example_monitor [gadget])"
  using handle_pincode_modal_input_not_clickable
          [of gadget "''110001''" stuck_input "''Message: ''" "example_monitor [gadget]"]
  by (simp add: gadget_def stuck_input_def quiet_modal_def dict_get_def)

end
